theory Spec2Isabelle
  imports Main
begin

section \<open>The object model read by \<open>oproperty\<close>\<close>

text \<open>
  \<open>src/oproperty.py\<close> defines one class, \<open>oproperty\<close>, a descriptor whose
  \<open>__get__\<close>, \<open>__set__\<close> and \<open>__delete__\<close> look an attribute of the same name up
  in the classes that follow the descriptor's own class in the MRO of the object, and one
  decorator, \<open>property_overriding\<close>, which tells every descriptor of a class which
  class it sits in.

  The embedding keeps what the code reads of Python's object model:
  \<^item> classes are named (\<open>cid\<close>) and live in a class table; of a class the code reads
    \<open>__mro__\<close>, \<open>__dict__\<close> and whether it is an instance of \<open>type\<close> (in Python 2
    an MRO may hold old-style classes, which are not; in Python 3 every class is);
    \<open>cls_class\<close> is the class of the class object (its metaclass);
  \<^item> an object handed to the descriptor is an ordinary instance of a class or a class
    object itself;
  \<^item> descriptor objects are mutable and are referred to by reference, so they live in a
    store \<open>ref \<Rightarrow> oproperty\<close>; a method takes the store and \<open>self\<close>;
  \<^item> user handlers run on a state \<open>'s\<close> (the attributes of the instances), may
    change it and may raise: a callable body is a function
    \<open>'s \<Rightarrow> (error + pyval) \<times> 's\<close>;
  \<^item> a call of \<open>__get__\<close>, \<open>__set__\<close> or \<open>__delete__\<close> may reach another
    \<open>oproperty\<close> higher in the MRO, and such a chain need not end, so these three
    methods carry the remaining call depth and raise \<open>RecursionError\<close> when it is
    used up, as the interpreter does.
\<close>

type_synonym cid = string
type_synonym ref = nat

datatype pyval = NoneV | IntV int | StrV string | RefV ref

datatype error =
    RuntimeError string
  | AttributeError
  | TypeError
  | UnboundLocalError
  | RecursionError

datatype pyobj = Instance nat cid | ClassObj cid

type_synonym 's comp = "'s \<Rightarrow> (error + pyval) \<times> 's"

text \<open>
  A callable: its \<open>__name__\<close> and what calling it does. A function has a name; a
  callable such as a \<open>functools.partial\<close> object has none, and reading
  \<open>__name__\<close> of it raises AttributeError.
\<close>

record 'f pyfunc =
  func_name :: "string option"
  func_call :: 'f

type_synonym 's get_handler = "(pyobj \<Rightarrow> 's comp \<Rightarrow> 's comp) pyfunc"
type_synonym 's set_handler = "(pyobj \<Rightarrow> pyval \<Rightarrow> (pyval \<Rightarrow> 's comp) \<Rightarrow> 's comp) pyfunc"
type_synonym 's del_handler = "(pyobj \<Rightarrow> 's comp \<Rightarrow> 's comp) pyfunc"

text \<open>The fields \<open>__init__\<close> gives an \<open>oproperty\<close> object.\<close>

record 's oproperty =
  fget :: "'s get_handler option"
  fset :: "'s set_handler option"
  fdel :: "'s del_handler option"
  doc :: "string option"
  prop_name :: string
  class_type :: "cid option"

type_synonym 's heap = "ref \<Rightarrow> 's oproperty"

text \<open>
  Any other object found in a class dictionary, seen through the three methods the code
  may call on it; a method the object does not have is \<open>None\<close>.
\<close>

record 's attr =
  a_get :: "(pyobj \<Rightarrow> 's comp) option"
  a_set :: "(pyobj \<Rightarrow> pyval \<Rightarrow> 's comp) option"
  a_delete :: "(pyobj \<Rightarrow> 's comp) option"

datatype 's member = OProp ref | Obj "'s attr"

record 's pyclass =
  cls_is_type :: bool
  cls_class :: cid
  cls_mro :: "cid list"
  cls_dict :: "(string \<times> 's member) list"

type_synonym 's class_table = "cid \<Rightarrow> 's pyclass"

section \<open>\<open>oproperty.__init__\<close>\<close>

text \<open>\<open>f.__name__\<close>.\<close>

definition get_name :: "'f pyfunc \<Rightarrow> error + string" where
  "get_name f = (case func_name f of None \<Rightarrow> Inl AttributeError | Some n \<Rightarrow> Inr n)"

definition oproperty_init ::
  "'s heap \<Rightarrow> ref \<Rightarrow> 's get_handler option \<Rightarrow> 's set_handler option \<Rightarrow>
   's del_handler option \<Rightarrow> string option \<Rightarrow> string option \<Rightarrow> error + 's heap" where
  "oproperty_init h self fget_arg fset_arg fdel_arg doc_arg name_arg =
     (case
        (case name_arg of
           Some n \<Rightarrow> Inr n
         | None \<Rightarrow>
             (case fget_arg of
                Some f \<Rightarrow> get_name f
              | None \<Rightarrow>
                  (case fset_arg of
                     Some f \<Rightarrow> get_name f
                   | None \<Rightarrow>
                       (case fdel_arg of
                          Some f \<Rightarrow> get_name f
                        | None \<Rightarrow>
                            Inl (RuntimeError ''Can't create a property with no functions!'')))))
      of
        Inl e \<Rightarrow> Inl e
      | Inr n \<Rightarrow>
          Inr (h(self := \<lparr>fget = fget_arg, fset = fset_arg, fdel = fdel_arg, doc = doc_arg,
                          prop_name = n, class_type = None\<rparr>)))"

definition override_setter ::
  "'s heap \<Rightarrow> ref \<Rightarrow> 's set_handler \<Rightarrow> 's get_handler option \<Rightarrow>
   's del_handler option \<Rightarrow> string option \<Rightarrow> string option \<Rightarrow> error + 's heap" where
  "override_setter h self f fget_arg fdel_arg doc_arg name_arg =
     oproperty_init h self fget_arg (Some f) fdel_arg doc_arg name_arg"

definition override_deleter ::
  "'s heap \<Rightarrow> ref \<Rightarrow> 's del_handler \<Rightarrow> 's get_handler option \<Rightarrow>
   's set_handler option \<Rightarrow> string option \<Rightarrow> string option \<Rightarrow> error + 's heap" where
  "override_deleter h self f fget_arg fset_arg doc_arg name_arg =
     oproperty_init h self fget_arg fset_arg (Some f) doc_arg name_arg"

section \<open>\<open>set_class_type\<close>, \<open>getter\<close>, \<open>setter\<close>, \<open>deleter\<close>\<close>

definition set_class_type :: "'s heap \<Rightarrow> ref \<Rightarrow> cid \<Rightarrow> 's heap" where
  "set_class_type h self klass = h(self := (h self)\<lparr>class_type := Some klass\<rparr>)"

text \<open>Each of the three returns \<open>self\<close>: the new store and the reference.\<close>

definition getter :: "'s heap \<Rightarrow> ref \<Rightarrow> 's get_handler \<Rightarrow> 's heap \<times> ref" where
  "getter h self f = (h(self := (h self)\<lparr>fget := Some f\<rparr>), self)"

definition setter :: "'s heap \<Rightarrow> ref \<Rightarrow> 's set_handler \<Rightarrow> 's heap \<times> ref" where
  "setter h self f = (h(self := (h self)\<lparr>fset := Some f\<rparr>), self)"

definition deleter :: "'s heap \<Rightarrow> ref \<Rightarrow> 's del_handler \<Rightarrow> 's heap \<times> ref" where
  "deleter h self f = (h(self := (h self)\<lparr>fdel := Some f\<rparr>), self)"

section \<open>\<open>_get_super_attribute\<close>\<close>


text \<open>
  The four lines under "Get the MRO for the object". \<open>ClassObj c\<close> stands for a class
  object that is an instance of \<open>type\<close>, so \<open>isinstance(obj, type)\<close> holds of it
  and the code reads \<open>obj.__mro__\<close>, the MRO of \<open>c\<close> itself; of an ordinary instance
  it reads \<open>obj.__class__.__mro__\<close>.
\<close>

definition get_mro :: "'s class_table \<Rightarrow> pyobj \<Rightarrow> cid list" where
  "get_mro ct obj =
     (case obj of
        ClassObj c \<Rightarrow> cls_mro (ct c)
      | Instance i c \<Rightarrow> cls_mro (ct c))"

text \<open>
  The first loop, \<open>for pos in range(len(mro))\<close> with its \<open>break\<close>, over the indices
  still to visit. The last argument is the loop variable, \<open>None\<close> while it is unbound;
  the result is its value after the loop.
\<close>

fun find_class_loop :: "cid list \<Rightarrow> cid \<Rightarrow> nat list \<Rightarrow> nat option \<Rightarrow> nat option" where
  "find_class_loop mro k [] pos = pos"
| "find_class_loop mro k (i # rest) pos =
     (if mro ! i = k then Some i else find_class_loop mro k rest (Some i))"

text \<open>
  The second loop, \<open>for pos in range(pos + 1, len(mro))\<close>, over the indices still to
  visit. \<open>name in tmp.__dict__\<close> is a successful lookup in the dictionary, whose
  value is returned; \<open>None\<close> is the \<open>return None\<close> after the loop.
\<close>

fun lookup_loop ::
  "'s class_table \<Rightarrow> cid list \<Rightarrow> string \<Rightarrow> nat list \<Rightarrow> 's member option" where
  "lookup_loop ct mro name [] = None"
| "lookup_loop ct mro name (i # rest) =
     (let tmp = ct (mro ! i) in
        if cls_is_type tmp
        then (case map_of (cls_dict tmp) name of
                Some m \<Rightarrow> Some m
              | None \<Rightarrow> lookup_loop ct mro name rest)
        else lookup_loop ct mro name rest)"

definition get_super_attribute ::
  "'s heap \<Rightarrow> 's class_table \<Rightarrow> ref \<Rightarrow> pyobj \<Rightarrow> string \<Rightarrow> error + 's member option" where
  "get_super_attribute h ct self obj name =
     (case class_type (h self) of
        None \<Rightarrow> Inl (RuntimeError ''You must decorate class!'')
      | Some k \<Rightarrow>
          (let mro = get_mro ct obj in
             (case find_class_loop mro k [0..<length mro] None of
                None \<Rightarrow> Inl UnboundLocalError
              | Some pos \<Rightarrow> Inr (lookup_loop ct mro name [Suc pos..<length mro]))))"

section \<open>\<open>__get__\<close>, \<open>__set__\<close>, \<open>__delete__\<close>\<close>

text \<open>
  \<open>super_attr.__get__(obj)\<close>, \<open>super_attr.__set__(obj, val)\<close> and
  \<open>super_attr.__delete__(obj)\<close>: Python's \<open>None\<close> and an object without the method
  raise AttributeError at the attribute lookup; another \<open>oproperty\<close> runs the method
  given as first argument.
\<close>

definition call_get ::
  "(ref \<Rightarrow> pyobj option \<Rightarrow> 's comp) \<Rightarrow> 's member option \<Rightarrow> pyobj \<Rightarrow> 's comp" where
  "call_get oget super_attr obj s =
     (case super_attr of
        None \<Rightarrow> (Inl AttributeError, s)
      | Some (OProp r) \<Rightarrow> oget r (Some obj) s
      | Some (Obj a) \<Rightarrow>
          (case a_get a of None \<Rightarrow> (Inl AttributeError, s) | Some g \<Rightarrow> g obj s))"

definition call_set ::
  "(ref \<Rightarrow> pyobj \<Rightarrow> pyval \<Rightarrow> 's comp) \<Rightarrow> 's member option \<Rightarrow> pyobj \<Rightarrow> pyval \<Rightarrow> 's comp" where
  "call_set oset super_attr obj val s =
     (case super_attr of
        None \<Rightarrow> (Inl AttributeError, s)
      | Some (OProp r) \<Rightarrow> oset r obj val s
      | Some (Obj a) \<Rightarrow>
          (case a_set a of None \<Rightarrow> (Inl AttributeError, s) | Some g \<Rightarrow> g obj val s))"

definition call_delete ::
  "(ref \<Rightarrow> pyobj \<Rightarrow> 's comp) \<Rightarrow> 's member option \<Rightarrow> pyobj \<Rightarrow> 's comp" where
  "call_delete odel super_attr obj s =
     (case super_attr of
        None \<Rightarrow> (Inl AttributeError, s)
      | Some (OProp r) \<Rightarrow> odel r obj s
      | Some (Obj a) \<Rightarrow>
          (case a_delete a of None \<Rightarrow> (Inl AttributeError, s) | Some g \<Rightarrow> g obj s))"

fun oproperty_get ::
  "nat \<Rightarrow> 's heap \<Rightarrow> 's class_table \<Rightarrow> ref \<Rightarrow> pyobj option \<Rightarrow> 's comp" where
  "oproperty_get depth h ct self None s = (Inr (RefV self), s)"
| "oproperty_get 0 h ct self (Some obj) s = (Inl RecursionError, s)"
| "oproperty_get (Suc depth) h ct self (Some obj) s =
     (case get_super_attribute h ct self obj (prop_name (h self)) of
        Inl e \<Rightarrow> (Inl e, s)
      | Inr super_attr \<Rightarrow>
          (case fget (h self) of
             Some f \<Rightarrow>
               func_call f obj (\<lambda>s'. call_get (oproperty_get depth h ct) super_attr obj s') s
           | None \<Rightarrow> call_get (oproperty_get depth h ct) super_attr obj s))"

fun oproperty_set ::
  "nat \<Rightarrow> 's heap \<Rightarrow> 's class_table \<Rightarrow> ref \<Rightarrow> pyobj \<Rightarrow> pyval \<Rightarrow> 's comp" where
  "oproperty_set 0 h ct self obj val s = (Inl RecursionError, s)"
| "oproperty_set (Suc depth) h ct self obj val s =
     (case get_super_attribute h ct self obj (prop_name (h self)) of
        Inl e \<Rightarrow> (Inl e, s)
      | Inr super_attr \<Rightarrow>
          (case fset (h self) of
             Some f \<Rightarrow>
               func_call f obj val
                 (\<lambda>v s'. call_set (oproperty_set depth h ct) super_attr obj v s') s
           | None \<Rightarrow> call_set (oproperty_set depth h ct) super_attr obj val s))"

fun oproperty_delete ::
  "nat \<Rightarrow> 's heap \<Rightarrow> 's class_table \<Rightarrow> ref \<Rightarrow> pyobj \<Rightarrow> 's comp" where
  "oproperty_delete 0 h ct self obj s = (Inl RecursionError, s)"
| "oproperty_delete (Suc depth) h ct self obj s =
     (case get_super_attribute h ct self obj (prop_name (h self)) of
        Inl e \<Rightarrow> (Inl e, s)
      | Inr super_attr \<Rightarrow>
          (case fdel (h self) of
             Some f \<Rightarrow>
               func_call f obj
                 (\<lambda>s'. call_delete (oproperty_delete depth h ct) super_attr obj s') s
           | None \<Rightarrow> call_delete (oproperty_delete depth h ct) super_attr obj s))"

section \<open>\<open>property_overriding\<close>\<close>

fun property_overriding_loop ::
  "'s heap \<Rightarrow> cid \<Rightarrow> (string \<times> 's member) list \<Rightarrow> 's heap" where
  "property_overriding_loop h klass [] = h"
| "property_overriding_loop h klass ((name, val) # items) =
     (case val of
        OProp r \<Rightarrow> property_overriding_loop (set_class_type h r klass) klass items
      | Obj a \<Rightarrow> property_overriding_loop h klass items)"

definition property_overriding :: "'s heap \<Rightarrow> 's class_table \<Rightarrow> cid \<Rightarrow> 's heap \<times> cid" where
  "property_overriding h ct klass =
     (property_overriding_loop h klass (cls_dict (ct klass)), klass)"

section \<open>The resolution as the specification words it\<close>

text \<open>
  The classes strictly after the first occurrence of the bound class in a linearization;
  a class "directly defines" a name when the name is a key of its own dictionary; the
  next implementation is the entry of the first class after the bound one that directly
  defines the name and passes the code's \<open>isinstance(tmp, type)\<close> test.
\<close>

definition ancestors_after :: "cid \<Rightarrow> cid list \<Rightarrow> cid list" where
  "ancestors_after k mro = tl (dropWhile (\<lambda>c. c \<noteq> k) mro)"

definition defines_name :: "'s class_table \<Rightarrow> string \<Rightarrow> cid \<Rightarrow> bool" where
  "defines_name ct name c \<longleftrightarrow> cls_is_type (ct c) \<and> name \<in> set (map fst (cls_dict (ct c)))"

definition first_defining :: "'s class_table \<Rightarrow> string \<Rightarrow> cid list \<Rightarrow> 's member option" where
  "first_defining ct name cs =
     (case find (defines_name ct name) cs of
        None \<Rightarrow> None
      | Some c \<Rightarrow> map_of (cls_dict (ct c)) name)"

definition next_implementation ::
  "'s class_table \<Rightarrow> cid list \<Rightarrow> cid \<Rightarrow> string \<Rightarrow> 's member option" where
  "next_implementation ct mro k name = first_defining ct name (ancestors_after k mro)"


text \<open>
  The identifier of the first supplied handler in get, set, delete order: \<open>None\<close>
  when no handler is supplied, \<open>Some None\<close> when the first supplied one has no
  identifier. The name to override in the specification's words: the explicit name when
  given, otherwise the identifier of the first supplied handler.
\<close>

definition first_handler_name ::
  "'s get_handler option \<Rightarrow> 's set_handler option \<Rightarrow> 's del_handler option \<Rightarrow>
   string option option" where
  "first_handler_name g st d =
     (case List.map_filter (\<lambda>x. x)
             [map_option func_name g, map_option func_name st, map_option func_name d] of
        [] \<Rightarrow> None
      | n # ns \<Rightarrow> Some n)"


section \<open>Python's built-in \<open>property\<close> and the classes of \<open>src/tests.py\<close>\<close>

text \<open>
  The built-in \<open>property(fget, fset, fdel)\<close> as a dictionary member: it has all three
  methods, each raises AttributeError when its function is missing, and \<open>__set__\<close> and
  \<open>__delete__\<close> return \<open>None\<close>.
\<close>

definition py_property ::
  "(pyobj \<Rightarrow> 's comp) option \<Rightarrow> (pyobj \<Rightarrow> pyval \<Rightarrow> 's comp) option \<Rightarrow>
   (pyobj \<Rightarrow> 's comp) option \<Rightarrow> 's attr" where
  "py_property g st d =
     \<lparr>a_get = Some (\<lambda>obj s.
        (case g of None \<Rightarrow> (Inl AttributeError, s) | Some f \<Rightarrow> f obj s)),
      a_set = Some (\<lambda>obj val s.
        (case st of
           None \<Rightarrow> (Inl AttributeError, s)
         | Some f \<Rightarrow>
             (case f obj val s of (Inl e, s') \<Rightarrow> (Inl e, s') | (Inr r, s') \<Rightarrow> (Inr NoneV, s')))),
      a_delete = Some (\<lambda>obj s.
        (case d of
           None \<Rightarrow> (Inl AttributeError, s)
         | Some f \<Rightarrow>
             (case f obj s of (Inl e, s') \<Rightarrow> (Inl e, s') | (Inr r, s') \<Rightarrow> (Inr NoneV, s'))))\<rparr>"

text \<open>\<open>+\<close> and \<open>-\<close> on the values of the model.\<close>

fun py_add :: "pyval \<Rightarrow> pyval \<Rightarrow> error + pyval" where
  "py_add (IntV a) (IntV b) = Inr (IntV (a + b))"
| "py_add (StrV a) (StrV b) = Inr (StrV (a @ b))"
| "py_add a b = Inl TypeError"

fun py_sub :: "pyval \<Rightarrow> pyval \<Rightarrow> error + pyval" where
  "py_sub (IntV a) (IntV b) = Inr (IntV (a - b))"
| "py_sub a b = Inl TypeError"

text \<open>The state the handlers of the tests work on: the attributes of each instance.\<close>

type_synonym istate = "pyobj \<Rightarrow> (string \<rightharpoonup> pyval)"

text \<open>
  \<open>BaseClass\<close> of \<open>src/tests.py\<close>: \<open>__init__\<close> stores \<open>val = 123\<close>; \<open>prop\<close> is a
  built-in property that returns \<open>self.val\<close>, stores into it, and on deletion stores 0.
\<close>

definition base_init :: "pyobj \<Rightarrow> istate \<Rightarrow> istate" where
  "base_init self s = s(self := (s self)(''val'' \<mapsto> IntV 123))"

definition base_prop_fget :: "pyobj \<Rightarrow> istate comp" where
  "base_prop_fget self s =
     (case s self ''val'' of None \<Rightarrow> (Inl AttributeError, s) | Some v \<Rightarrow> (Inr v, s))"

definition base_prop_fset :: "pyobj \<Rightarrow> pyval \<Rightarrow> istate comp" where
  "base_prop_fset self val s = (Inr NoneV, s(self := (s self)(''val'' \<mapsto> val)))"

definition base_prop_fdel :: "pyobj \<Rightarrow> istate comp" where
  "base_prop_fdel self s = (Inr NoneV, s(self := (s self)(''val'' \<mapsto> IntV 0)))"

text \<open>
  The handlers of \<open>DerivedClass\<close> in \<open>TestBasicImplementation\<close>:
  \<open>return orig() + 1\<close> and \<open>orig(val - 10)\<close>.
\<close>

definition derived_prop_get :: "istate get_handler" where
  "derived_prop_get =
     \<lparr>func_name = Some ''prop'',
      func_call = (\<lambda>self orig s.
        (case orig s of (Inl e, s') \<Rightarrow> (Inl e, s') | (Inr v, s') \<Rightarrow> (py_add v (IntV 1), s')))\<rparr>"

definition derived_prop_set :: "istate set_handler" where
  "derived_prop_set =
     \<lparr>func_name = Some ''prop'',
      func_call = (\<lambda>self val orig s.
        (case py_sub val (IntV 10) of
           Inl e \<Rightarrow> (Inl e, s)
         | Inr w \<Rightarrow>
             (case orig w s of (Inl e, s') \<Rightarrow> (Inl e, s') | (Inr r, s') \<Rightarrow> (Inr NoneV, s'))))\<rparr>"

text \<open>
  The class table of \<open>TestBasicImplementation\<close>; the dictionaries list the members the
  test defines under the name \<open>prop\<close>. The descriptor of \<open>DerivedClass\<close> is object 0.
\<close>

definition test_classes :: "istate class_table" where
  "test_classes c =
     (if c = ''DerivedClass'' then
        \<lparr>cls_is_type = True, cls_class = ''type'',
         cls_mro = [''DerivedClass'', ''BaseClass'', ''object''],
         cls_dict = [(''prop'', OProp 0)]\<rparr>
      else if c = ''BaseClass'' then
        \<lparr>cls_is_type = True, cls_class = ''type'',
         cls_mro = [''BaseClass'', ''object''],
         cls_dict = [(''prop'', Obj (py_property (Some base_prop_fget) (Some base_prop_fset)
                                       (Some base_prop_fdel)))]\<rparr>
      else
        \<lparr>cls_is_type = True, cls_class = ''type'', cls_mro = [''object''], cls_dict = []\<rparr>)"

text \<open>
  The class body and the decorator: \<open>prop = oproperty(prop)\<close>,
  \<open>prop = prop.setter(prop)\<close>, then \<open>property_overriding(DerivedClass)\<close>.
\<close>

definition test_setup :: "istate heap \<Rightarrow> error + istate heap" where
  "test_setup h0 =
     (case oproperty_init h0 0 (Some derived_prop_get) None None None None of
        Inl e \<Rightarrow> Inl e
      | Inr h1 \<Rightarrow>
          (case setter h1 0 derived_prop_set of
             (h2, prop) \<Rightarrow>
               (case property_overriding h2 test_classes ''DerivedClass'' of
                  (h3, klass) \<Rightarrow> Inr h3)))"

text \<open>A store in which no descriptor has been constructed yet.\<close>

definition no_descriptors :: "'s heap" where
  "no_descriptors = (\<lambda>r. \<lparr>fget = None, fset = None, fdel = None, doc = None,
                           prop_name = [], class_type = None\<rparr>)"

text \<open>The state in which no instance has an attribute, and the store after the setup.\<close>

definition no_attributes :: istate where
  "no_attributes = (\<lambda>ob. Map.empty)"

definition test_heap :: "istate heap" where
  "test_heap = (case test_setup no_descriptors of Inl e \<Rightarrow> no_descriptors | Inr h \<Rightarrow> h)"




text \<open>
  The classes of \<open>TestNamings\<close>: \<open>BaseClass\<close> has the read-only properties
  \<open>prop1\<close> (123) and \<open>prop2\<close> (456), \<open>DerivedClass\<close> holds the descriptor object 0
  under the name \<open>prop\<close>; the handler \<open>prop1\<close> of \<open>test_fget_name\<close> returns
  \<open>orig()\<close>.
\<close>

definition prop1_fget :: "pyobj \<Rightarrow> istate comp" where
  "prop1_fget self s = (Inr (IntV 123), s)"

definition prop2_fget :: "pyobj \<Rightarrow> istate comp" where
  "prop2_fget self s = (Inr (IntV 456), s)"

definition naming_classes :: "istate class_table" where
  "naming_classes c =
     (if c = ''DerivedClass'' then
        \<lparr>cls_is_type = True, cls_class = ''type'',
         cls_mro = [''DerivedClass'', ''BaseClass'', ''object''],
         cls_dict = [(''prop'', OProp 0)]\<rparr>
      else if c = ''BaseClass'' then
        \<lparr>cls_is_type = True, cls_class = ''type'',
         cls_mro = [''BaseClass'', ''object''],
         cls_dict =
           [(''prop1'', Obj (py_property (Some prop1_fget) None None)),
            (''prop2'', Obj (py_property (Some prop2_fget) None None))]\<rparr>
      else
        \<lparr>cls_is_type = True, cls_class = ''type'', cls_mro = [''object''], cls_dict = []\<rparr>)"

definition prop1_handler :: "istate get_handler" where
  "prop1_handler = \<lparr>func_name = Some ''prop1'', func_call = (\<lambda>self orig s. orig s)\<rparr>"

text \<open>
  The same handler wrapped in a callable without \<open>__name__\<close>, as
  \<open>functools.partial(prop1)\<close> is.
\<close>

definition partial_prop1 :: "istate get_handler" where
  "partial_prop1 = \<lparr>func_name = None, func_call = (\<lambda>self orig s. orig s)\<rparr>"

text \<open>
  A descriptor that overrides only the getter of \<open>prop\<close> in the classes of
  \<open>TestBasicImplementation\<close>: \<open>oproperty(prop)\<close> with no setter attached,
  decorated.
\<close>

definition getter_only_heap :: "istate heap" where
  "getter_only_heap =
     (case oproperty_init no_descriptors 0 (Some derived_prop_get) None None None None of
        Inl e \<Rightarrow> no_descriptors
      | Inr h \<Rightarrow> fst (property_overriding h test_classes ''DerivedClass''))"

text \<open>The descriptor of \<open>test_fget_name\<close>: \<open>oproperty(fget=prop1)\<close>, decorated.\<close>

definition naming_heap :: "istate heap" where
  "naming_heap =
     (case oproperty_init no_descriptors 0 (Some prop1_handler) None None None None of
        Inl e \<Rightarrow> no_descriptors
      | Inr h \<Rightarrow> fst (property_overriding h naming_classes ''DerivedClass''))"

text \<open>
  The classes of \<open>test_multiple_overriding\<close>: \<open>Derived1(BaseClass)\<close> overrides
  \<open>prop\<close> with \<open>orig() + 1\<close> (descriptor object 0) and \<open>Derived2(Derived1)\<close>
  overrides it again with \<open>orig() + 5\<close> (descriptor object 1); both are decorated.
\<close>

definition derived2_prop_get :: "istate get_handler" where
  "derived2_prop_get =
     \<lparr>func_name = Some ''prop'',
      func_call = (\<lambda>self orig s.
        (case orig s of (Inl e, s') \<Rightarrow> (Inl e, s') | (Inr v, s') \<Rightarrow> (py_add v (IntV 5), s')))\<rparr>"

definition stacked_classes :: "istate class_table" where
  "stacked_classes c =
     (if c = ''Derived2'' then
        \<lparr>cls_is_type = True, cls_class = ''type'',
         cls_mro = [''Derived2'', ''Derived1'', ''BaseClass'', ''object''],
         cls_dict = [(''prop'', OProp 1)]\<rparr>
      else if c = ''Derived1'' then
        \<lparr>cls_is_type = True, cls_class = ''type'',
         cls_mro = [''Derived1'', ''BaseClass'', ''object''],
         cls_dict = [(''prop'', OProp 0)]\<rparr>
      else if c = ''BaseClass'' then
        \<lparr>cls_is_type = True, cls_class = ''type'',
         cls_mro = [''BaseClass'', ''object''],
         cls_dict = [(''prop'', Obj (py_property (Some base_prop_fget) (Some base_prop_fset)
                                       (Some base_prop_fdel)))]\<rparr>
      else
        \<lparr>cls_is_type = True, cls_class = ''type'', cls_mro = [''object''], cls_dict = []\<rparr>)"

definition stacked_setup :: "istate heap \<Rightarrow> error + istate heap" where
  "stacked_setup h0 =
     (case oproperty_init h0 0 (Some derived_prop_get) None None None None of
        Inl e \<Rightarrow> Inl e
      | Inr h1 \<Rightarrow>
          (case property_overriding h1 stacked_classes ''Derived1'' of
             (h2, klass1) \<Rightarrow>
               (case oproperty_init h2 1 (Some derived2_prop_get) None None None None of
                  Inl e \<Rightarrow> Inl e
                | Inr h3 \<Rightarrow>
                    (case property_overriding h3 stacked_classes ''Derived2'' of
                       (h4, klass2) \<Rightarrow> Inr h4))))"

section \<open>The two loops of \<open>_get_super_attribute\<close>\<close>

lemma find_class_loop_upt:
  "i \<le> length mro \<Longrightarrow>
   find_class_loop mro k [i..<length mro] pos =
     (if k \<in> set (drop i mro) then Some (i + length (takeWhile (\<lambda>c. c \<noteq> k) (drop i mro)))
      else if i < length mro then Some (length mro - 1) else pos)"
proof (induction "length mro - i" arbitrary: i pos)
  case 0
  then show ?case by simp
next
  case (Suc d)
  then have lt: "i < length mro" by simp
  have dr: "drop i mro = mro ! i # drop (Suc i) mro"
    using lt by (simp add: Cons_nth_drop_Suc)
  have up: "[i..<length mro] = i # [Suc i..<length mro]"
    using lt by (simp add: upt_conv_Cons)
  have ih: "find_class_loop mro k [Suc i..<length mro] (Some i) =
     (if k \<in> set (drop (Suc i) mro)
      then Some (Suc i + length (takeWhile (\<lambda>c. c \<noteq> k) (drop (Suc i) mro)))
      else if Suc i < length mro then Some (length mro - 1) else Some i)"
    using Suc.hyps(1)[of "Suc i" "Some i"] Suc.hyps(2) lt by simp
  show ?case
    using lt by (auto simp: up dr ih)
qed

lemma first_defining_Cons:
  "first_defining ct name (c # cs) =
     (if defines_name ct name c then map_of (cls_dict (ct c)) name
      else first_defining ct name cs)"
  by (simp add: first_defining_def)

lemma map_of_Some_key:
  "map_of d name = Some m \<Longrightarrow> name \<in> fst ` set d"
  by (metis map_of_eq_None_iff option.distinct(1))

lemma lookup_loop_upt:
  "i \<le> length mro \<Longrightarrow>
   lookup_loop ct mro name [i..<length mro] = first_defining ct name (drop i mro)"
proof (induction "length mro - i" arbitrary: i)
  case 0
  then show ?case by (simp add: first_defining_def)
next
  case (Suc d)
  then have lt: "i < length mro" by simp
  have dr: "drop i mro = mro ! i # drop (Suc i) mro"
    using lt by (simp add: Cons_nth_drop_Suc)
  have up: "[i..<length mro] = i # [Suc i..<length mro]"
    using lt by (simp add: upt_conv_Cons)
  have ih: "lookup_loop ct mro name [Suc i..<length mro] =
              first_defining ct name (drop (Suc i) mro)"
    using Suc.hyps(1)[of "Suc i"] Suc.hyps(2) lt by simp
  show ?case
    unfolding up dr
    by (auto simp: ih first_defining_Cons defines_name_def Let_def map_of_eq_None_iff
             split: option.splits dest: map_of_Some_key)
qed

lemma ancestors_after_drop:
  "k \<in> set mro \<Longrightarrow>
   ancestors_after k mro = drop (Suc (length (takeWhile (\<lambda>c. c \<noteq> k) mro))) mro"
  by (simp add: ancestors_after_def dropWhile_eq_drop drop_Suc tl_drop)

lemma ancestors_after_absent:
  "k \<notin> set mro \<Longrightarrow> ancestors_after k mro = []"
proof -
  assume "k \<notin> set mro"
  then have d: "dropWhile (\<lambda>c. c \<noteq> k) mro = []"
    by (induction mro) auto
  show "ancestors_after k mro = []"
    unfolding ancestors_after_def d by simp
qed

lemma takeWhile_before:
  "k \<in> set mro \<Longrightarrow> length (takeWhile (\<lambda>c. c \<noteq> k) mro) < length mro"
  by (induction mro) auto

lemma get_super_attribute_bound:
  assumes "class_type (h self) = Some k" and "get_mro ct obj \<noteq> []"
  shows "get_super_attribute h ct self obj name =
           Inr (next_implementation ct (get_mro ct obj) k name)"
proof (cases "k \<in> set (get_mro ct obj)")
  case True
  then show ?thesis
    using assms
    by (simp add: get_super_attribute_def Let_def find_class_loop_upt lookup_loop_upt
          next_implementation_def ancestors_after_drop Suc_leI takeWhile_before)
next
  case False
  then show ?thesis
    using assms
    by (simp add: get_super_attribute_def Let_def find_class_loop_upt lookup_loop_upt
          next_implementation_def ancestors_after_absent first_defining_def)
qed

section \<open>Facts about the test classes\<close>


lemma derived_prop_get_name: "get_name derived_prop_get = Inr ''prop''"
  by (simp add: derived_prop_get_def get_name_def)

lemma prop1_handler_name: "get_name prop1_handler = Inr ''prop1''"
  by (simp add: prop1_handler_def get_name_def)

lemma test_setup_result:
  "test_setup h0 =
     Inr (h0(0 := \<lparr>fget = Some derived_prop_get, fset = Some derived_prop_set, fdel = None,
                    doc = None, prop_name = ''prop'', class_type = Some ''DerivedClass''\<rparr>))"
  by (simp add: test_setup_def oproperty_init_def setter_def property_overriding_def
        test_classes_def set_class_type_def derived_prop_get_name)

lemma test_heap_0:
  "test_heap 0 = \<lparr>fget = Some derived_prop_get, fset = Some derived_prop_set, fdel = None,
                   doc = None, prop_name = ''prop'', class_type = Some ''DerivedClass''\<rparr>"
  by (simp add: test_heap_def test_setup_result)

lemma naming_heap_0:
  "naming_heap 0 = \<lparr>fget = Some prop1_handler, fset = None, fdel = None,
                     doc = None, prop_name = ''prop1'', class_type = Some ''DerivedClass''\<rparr>"
  by (simp add: naming_heap_def oproperty_init_def property_overriding_def naming_classes_def
        set_class_type_def prop1_handler_name)


lemma test_mro_derived:
  "get_mro test_classes (Instance i ''DerivedClass'') =
     [''DerivedClass'', ''BaseClass'', ''object'']"
  by (simp add: get_mro_def test_classes_def)

lemma test_mro_base:
  "get_mro test_classes (Instance i ''BaseClass'') = [''BaseClass'', ''object'']"
  by (simp add: get_mro_def test_classes_def)

lemma naming_mro_derived:
  "get_mro naming_classes (Instance i ''DerivedClass'') =
     [''DerivedClass'', ''BaseClass'', ''object'']"
  by (simp add: get_mro_def naming_classes_def)

lemma test_next_derived:
  "next_implementation test_classes [''DerivedClass'', ''BaseClass'', ''object'']
     ''DerivedClass'' ''prop'' =
   Some (Obj (py_property (Some base_prop_fget) (Some base_prop_fset) (Some base_prop_fdel)))"
  by (simp add: test_classes_def next_implementation_def ancestors_after_def
        first_defining_def defines_name_def)

lemma naming_next_prop1:
  "next_implementation naming_classes [''DerivedClass'', ''BaseClass'', ''object'']
     ''DerivedClass'' ''prop1'' =
   Some (Obj (py_property (Some prop1_fget) None None))"
  by (simp add: naming_classes_def next_implementation_def ancestors_after_def
        first_defining_def defines_name_def)


lemma base_property_get:
  "call_get oget (Some (Obj (py_property (Some base_prop_fget) st d))) obj s =
     (case s obj ''val'' of None \<Rightarrow> (Inl AttributeError, s) | Some v \<Rightarrow> (Inr v, s))"
  by (simp add: call_get_def py_property_def base_prop_fget_def)

lemma base_property_set:
  "call_set oset (Some (Obj (py_property g (Some base_prop_fset) d))) obj val s =
     (Inr NoneV, s(obj := (s obj)(''val'' \<mapsto> val)))"
  by (simp add: call_set_def py_property_def base_prop_fset_def)

lemma base_init_val:
  "base_init obj s obj ''val'' = Some (IntV 123)"
  by (simp add: base_init_def)

section \<open>Stacked overrides\<close>

text \<open>
  \<open>test_multiple_overriding\<close>: the \<open>__get__\<close> of the descriptor of \<open>Derived2\<close>
  reaches the descriptor of \<open>Derived1\<close>, whose \<open>__get__\<close> reaches the property of
  \<open>BaseClass\<close>; the two handlers add up, and one level of call depth is not enough.
\<close>

lemma derived2_prop_get_name: "get_name derived2_prop_get = Inr ''prop''"
  by (simp add: derived2_prop_get_def get_name_def)

lemma stacked_setup_result:
  "stacked_setup h0 =
     Inr (h0(0 := \<lparr>fget = Some derived_prop_get, fset = None, fdel = None,
                    doc = None, prop_name = ''prop'', class_type = Some ''Derived1''\<rparr>,
             1 := \<lparr>fget = Some derived2_prop_get, fset = None, fdel = None,
                    doc = None, prop_name = ''prop'', class_type = Some ''Derived2''\<rparr>))"
  by (simp add: stacked_setup_def oproperty_init_def property_overriding_def
        stacked_classes_def set_class_type_def derived_prop_get_name derived2_prop_get_name)

lemma stacked_mro:
  "get_mro stacked_classes (Instance i ''Derived2'') =
     [''Derived2'', ''Derived1'', ''BaseClass'', ''object'']"
  by (simp add: get_mro_def stacked_classes_def)

lemma stacked_next_2:
  "next_implementation stacked_classes [''Derived2'', ''Derived1'', ''BaseClass'', ''object'']
     ''Derived2'' ''prop'' = Some (OProp 0)"
  by (simp add: stacked_classes_def next_implementation_def ancestors_after_def
        first_defining_def defines_name_def)

lemma stacked_next_1:
  "next_implementation stacked_classes [''Derived2'', ''Derived1'', ''BaseClass'', ''object'']
     ''Derived1'' ''prop'' =
   Some (Obj (py_property (Some base_prop_fget) (Some base_prop_fset) (Some base_prop_fdel)))"
  by (simp add: stacked_classes_def next_implementation_def ancestors_after_def
        first_defining_def defines_name_def)

lemma stacked_overrides_add:
  assumes "stacked_setup h0 = Inr h" and "s (Instance i ''Derived2'') ''val'' = Some (IntV b)"
  shows "oproperty_get (Suc (Suc depth)) h stacked_classes 1 (Some (Instance i ''Derived2'')) s =
           (Inr (IntV (b + 1 + 5)), s)"
    and "oproperty_get (Suc 0) h stacked_classes 1 (Some (Instance i ''Derived2'')) s =
           (Inl RecursionError, s)"
proof -
  let ?d = "Instance i ''Derived2''"
  have h0: "h 0 = \<lparr>fget = Some derived_prop_get, fset = None, fdel = None,
                    doc = None, prop_name = ''prop'', class_type = Some ''Derived1''\<rparr>"
    using assms(1) by (auto simp: stacked_setup_result)
  have h1: "h (Suc 0) = \<lparr>fget = Some derived2_prop_get, fset = None, fdel = None,
                    doc = None, prop_name = ''prop'', class_type = Some ''Derived2''\<rparr>"
    using assms(1) by (auto simp: stacked_setup_result)
  have b1: "class_type (h (Suc 0)) = Some ''Derived2''" by (simp add: h1)
  have b0: "class_type (h 0) = Some ''Derived1''" by (simp add: h0)
  have m: "get_mro stacked_classes ?d \<noteq> []" by (simp add: stacked_mro)
  note r1 = get_super_attribute_bound [where h = h and self = "Suc 0", OF b1 m]
  note r0 = get_super_attribute_bound [where h = h and self = 0, OF b0 m]
  have inner: "oproperty_get (Suc depth) h stacked_classes 0 (Some ?d) s = (Inr (IntV (b + 1)), s)"
    using assms(2)
    by (simp add: r0 h0 stacked_mro stacked_next_1 base_property_get derived_prop_get_def)
  have outer: "oproperty_get (Suc n) h stacked_classes (Suc 0) (Some ?d) s =
                 func_call derived2_prop_get ?d
                   (oproperty_get n h stacked_classes 0 (Some ?d)) s" for n
  proof -
    have "call_get (oproperty_get n h stacked_classes) (Some (OProp 0)) ?d =
            oproperty_get n h stacked_classes 0 (Some ?d)"
      by (rule ext) (simp add: call_get_def)
    then show ?thesis
      by (simp add: r1 h1 stacked_mro stacked_next_2)
  qed
  have step: "func_call derived2_prop_get ?d c s =
                (case c s of (Inl e, s') \<Rightarrow> (Inl e, s') | (Inr v, s') \<Rightarrow> (py_add v (IntV 5), s'))"
    for c
    by (simp add: derived2_prop_get_def)
  show "oproperty_get (Suc (Suc depth)) h stacked_classes 1 (Some (Instance i ''Derived2'')) s =
           (Inr (IntV (b + 1 + 5)), s)"
    unfolding One_nat_def outer step inner by simp
  show "oproperty_get (Suc 0) h stacked_classes 1 (Some (Instance i ''Derived2'')) s =
           (Inl RecursionError, s)"
    unfolding One_nat_def outer step by simp
qed

section \<open>What the chain accessors call\<close>

lemma call_get_None:
  "call_get oget None obj = (\<lambda>s. (Inl AttributeError, s))"
  by (rule ext) (simp add: call_get_def)

lemma call_get_OProp:
  "call_get oget (Some (OProp r)) obj = oget r (Some obj)"
  by (rule ext) (simp add: call_get_def)

lemma call_get_Obj:
  "call_get oget (Some (Obj a)) obj =
     (case a_get a of None \<Rightarrow> (\<lambda>s. (Inl AttributeError, s)) | Some g \<Rightarrow> g obj)"
  by (rule ext) (simp add: call_get_def split: option.split)

lemma call_set_None:
  "call_set oset None obj val s = (Inl AttributeError, s)"
  by (simp add: call_set_def)

lemma call_set_OProp:
  "call_set oset (Some (OProp r)) obj val s = oset r obj val s"
  by (simp add: call_set_def)

lemma call_set_Obj:
  "call_set oset (Some (Obj a)) obj val s =
     (case a_set a of None \<Rightarrow> (Inl AttributeError, s) | Some w \<Rightarrow> w obj val s)"
  by (simp add: call_set_def)

lemma getter_only_heap_0:
  "getter_only_heap 0 = \<lparr>fget = Some derived_prop_get, fset = None, fdel = None,
                          doc = None, prop_name = ''prop'', class_type = Some ''DerivedClass''\<rparr>"
  by (simp add: getter_only_heap_def oproperty_init_def property_overriding_def
        test_classes_def set_class_type_def derived_prop_get_name)

section \<open>Chain lookup\<close>




section \<open>Get\<close>

text \<open>
  C2. For a bound descriptor and an object with a non-empty linearization (every Python
  class has one), \<open>__get__\<close> with enough call depth left does the following. The
  chain's get is the \<open>__get__\<close> of the attribute found by the chain lookup, applied to
  the object: the \<open>__get__\<close> of another \<open>oproperty\<close> found there, the
  \<open>__get__\<close> method of any other object found there, and AttributeError when
  nothing was found or the object found has no \<open>__get__\<close>. With a get-handler,
  \<open>__get__\<close> calls the handler on the object and on the zero-argument callable that
  performs the chain's get, and returns what the handler returns; without one, it performs
  the chain's get and returns its value.
\<close>

theorem get_runs_handler_or_chain:
  assumes "class_type (h self) = Some k" and "get_mro ct obj \<noteq> []"
  shows "oproperty_get (Suc depth) h ct self (Some obj) s =
           (case next_implementation ct (get_mro ct obj) k (prop_name (h self)) of
              None \<Rightarrow>
                (case fget (h self) of
                   Some f \<Rightarrow> func_call f obj (\<lambda>s'. (Inl AttributeError, s')) s
                 | None \<Rightarrow> (Inl AttributeError, s))
            | Some (OProp r) \<Rightarrow>
                (case fget (h self) of
                   Some f \<Rightarrow> func_call f obj (oproperty_get depth h ct r (Some obj)) s
                 | None \<Rightarrow> oproperty_get depth h ct r (Some obj) s)
            | Some (Obj a) \<Rightarrow>
                (case a_get a of
                   None \<Rightarrow>
                     (case fget (h self) of
                        Some f \<Rightarrow> func_call f obj (\<lambda>s'. (Inl AttributeError, s')) s
                      | None \<Rightarrow> (Inl AttributeError, s))
                 | Some getm \<Rightarrow>
                     (case fget (h self) of
                        Some f \<Rightarrow> func_call f obj (getm obj) s
                      | None \<Rightarrow> getm obj s)))"
  by (simp add: get_super_attribute_bound [where h = h and self = self, OF assms]
        call_get_None call_get_OProp call_get_Obj
        split: option.split member.split)

text \<open>
  The theorem at \<open>test_simple_get\<close>: the lookup finds the property of
  \<open>BaseClass\<close>, its getter reads the stored 123, and the handler adds 1.
\<close>

theorem get_runs_handler_or_chain_witness:
  "class_type (test_heap 0) = Some ''DerivedClass'' \<and>
   get_mro test_classes (Instance 0 ''DerivedClass'') \<noteq> [] \<and>
   oproperty_get (Suc 0) test_heap test_classes 0 (Some (Instance 0 ''DerivedClass''))
     (base_init (Instance 0 ''DerivedClass'') no_attributes) =
     (Inr (IntV 124), base_init (Instance 0 ''DerivedClass'') no_attributes)"
proof -
  have b: "class_type (test_heap 0) = Some ''DerivedClass''"
    by (simp add: test_heap_0)
  have m: "get_mro test_classes (Instance 0 ''DerivedClass'') \<noteq> []"
    by (simp add: test_mro_derived)
  have r: "oproperty_get (Suc 0) test_heap test_classes 0 (Some (Instance 0 ''DerivedClass''))
     (base_init (Instance 0 ''DerivedClass'') no_attributes) =
     (Inr (IntV 124), base_init (Instance 0 ''DerivedClass'') no_attributes)"
    unfolding get_runs_handler_or_chain [where h = test_heap and self = 0, OF b m]
    by (simp add: test_heap_0 test_mro_derived test_next_derived py_property_def
          base_prop_fget_def derived_prop_get_def base_init_val)
  from b m r show ?thesis by blast
qed

text \<open>
  C9. \<open>__get__\<close> without an instance (attribute access on the class) returns the
  descriptor object itself, whether the descriptor is bound or not, whatever call depth
  is left, and leaves the state alone.
\<close>

theorem get_without_instance_returns_self:
  "oproperty_get depth h ct self None s = (Inr (RefV self), s)"
  by simp

section \<open>Unbound descriptors\<close>

text \<open>
  C3. Of a descriptor whose \<open>__class_type\<close> is still \<open>None\<close>, every get, set and
  delete on an object raises RuntimeError ("You must decorate class!"), whatever handlers
  it has and whatever the object is, and leaves the state alone.
\<close>

theorem unbound_access_fails:
  assumes "class_type (h self) = None"
  shows "oproperty_get (Suc depth) h ct self (Some obj) s =
           (Inl (RuntimeError ''You must decorate class!''), s) \<and>
         oproperty_set (Suc depth) h ct self obj val s =
           (Inl (RuntimeError ''You must decorate class!''), s) \<and>
         oproperty_delete (Suc depth) h ct self obj s =
           (Inl (RuntimeError ''You must decorate class!''), s)"
  using assms by (simp add: get_super_attribute_def)

text \<open>
  The theorem at \<open>test_without_decorator\<close>: the descriptor is constructed with a
  getter and never decorated.
\<close>

theorem unbound_access_fails_witness:
  "oproperty_init (no_descriptors :: istate heap) 0 (Some derived_prop_get) None None None None =
     Inr (no_descriptors(0 := \<lparr>fget = Some derived_prop_get, fset = None, fdel = None,
            doc = None, prop_name = ''prop'', class_type = None\<rparr>)) \<and>
   class_type ((no_descriptors(0 := \<lparr>fget = Some derived_prop_get, fset = None, fdel = None,
            doc = None, prop_name = ''prop'', class_type = None\<rparr>)) 0) = None \<and>
   oproperty_get (Suc 0)
     (no_descriptors(0 := \<lparr>fget = Some derived_prop_get, fset = None, fdel = None,
            doc = None, prop_name = ''prop'', class_type = None\<rparr>))
     test_classes 0 (Some (Instance 0 ''DerivedClass''))
     (base_init (Instance 0 ''DerivedClass'') no_attributes) =
     (Inl (RuntimeError ''You must decorate class!''),
      base_init (Instance 0 ''DerivedClass'') no_attributes)"
proof -
  let ?h = "(no_descriptors :: istate heap)(0 := \<lparr>fget = Some derived_prop_get, fset = None,
            fdel = None, doc = None, prop_name = ''prop'', class_type = None\<rparr>)"
  have i: "oproperty_init (no_descriptors :: istate heap) 0 (Some derived_prop_get) None None
             None None = Inr ?h"
    by (simp add: oproperty_init_def derived_prop_get_name)
  have u: "class_type (?h 0) = None"
    by simp
  from unbound_access_fails [where h = ?h and self = 0, OF u] i u show ?thesis by blast
qed

section \<open>Construction\<close>

text \<open>
  C4, as the code has it. \<open>__init__\<close> raises RuntimeError ("Can't create a property
  with no functions!") exactly when no get, set or delete handler and no name is given.
  It succeeds exactly when a name is given, or no name is given and the first handler
  supplied, in get, set, delete order, has a \<open>__name__\<close>. When no name is given and the
  first handler supplied has no \<open>__name__\<close>, it raises AttributeError.
\<close>

theorem init_outcome_by_arguments:
  "(oproperty_init h self g st d dc nm =
      Inl (RuntimeError ''Can't create a property with no functions!'')) =
     (g = None \<and> st = None \<and> d = None \<and> nm = None) \<and>
   (first_handler_name g st d = None) = (g = None \<and> st = None \<and> d = None) \<and>
   (\<exists>h'. oproperty_init h self g st d dc nm = Inr h') =
     ((\<exists>n. nm = Some n) \<or> (\<exists>n. nm = None \<and> first_handler_name g st d = Some (Some n))) \<and>
   (oproperty_init h self g st d dc nm = Inl AttributeError) =
     (nm = None \<and> first_handler_name g st d = Some None)"
  by (auto simp: oproperty_init_def first_handler_name_def get_name_def List.map_filter_simps
           split: option.splits)

text \<open>
  C4 as it is stated promises success whenever a handler is given. With the single
  handler \<open>functools.partial(prop1)\<close>, which has no \<open>__name__\<close>, and no name,
  \<open>fget.__name__\<close> raises AttributeError and nothing is constructed.
\<close>

theorem init_nameless_handler_counterexample:
  "func_name partial_prop1 = None \<and>
   oproperty_init (no_descriptors :: istate heap) 0 (Some partial_prop1) None None None None =
     Inl AttributeError"
  by (simp add: oproperty_init_def get_name_def partial_prop1_def)



section \<open>Set without a set-handler\<close>

text \<open>
  C6. For a bound descriptor without a set-handler, \<open>__set__\<close> is the \<open>__set__\<close> of
  the attribute found by the chain lookup, called on the same object and value: the
  \<open>__set__\<close> of another \<open>oproperty\<close> found there, the \<open>__set__\<close> method of any
  other object found there. When nothing was found or the object found has no
  \<open>__set__\<close>, the write raises AttributeError and leaves the state alone. For a
  built-in property this means: with a setter, the setter runs on the object and the
  value; without one, the write raises AttributeError and leaves the state alone.
\<close>

theorem set_without_handler_delegates:
  assumes "class_type (h self) = Some k" and "fset (h self) = None"
    and "get_mro ct obj \<noteq> []"
  shows "oproperty_set (Suc depth) h ct self obj val s =
           (case next_implementation ct (get_mro ct obj) k (prop_name (h self)) of
              None \<Rightarrow> (Inl AttributeError, s)
            | Some (OProp r) \<Rightarrow> oproperty_set depth h ct r obj val s
            | Some (Obj a) \<Rightarrow>
                (case a_set a of
                   None \<Rightarrow> (Inl AttributeError, s)
                 | Some setm \<Rightarrow> setm obj val s)) \<and>
         (\<forall>g d. next_implementation ct (get_mro ct obj) k (prop_name (h self)) =
                   Some (Obj (py_property g None d)) \<longrightarrow>
            oproperty_set (Suc depth) h ct self obj val s = (Inl AttributeError, s)) \<and>
         (\<forall>g f d. next_implementation ct (get_mro ct obj) k (prop_name (h self)) =
                   Some (Obj (py_property g (Some f) d)) \<longrightarrow>
            oproperty_set (Suc depth) h ct self obj val s =
              (case f obj val s of
                 (Inl e, s') \<Rightarrow> (Inl e, s')
               | (Inr r, s') \<Rightarrow> (Inr NoneV, s')))"
  by (simp add: get_super_attribute_bound [where h = h and self = self, OF assms(1) assms(3)]
        assms(2) call_set_None call_set_OProp call_set_Obj py_property_def
        split: option.split member.split)

text \<open>
  The theorem twice. In the classes of \<open>TestBasicImplementation\<close>, with a descriptor
  that overrides the getter only, writing 555 reaches the setter of \<open>BaseClass\<close> and
  stores 555. In the classes of \<open>TestNamings\<close>, where the descriptor overrides the
  getter of the read-only property \<open>prop1\<close>, writing raises AttributeError.
\<close>

theorem set_without_handler_delegates_witness:
  "class_type (getter_only_heap 0) = Some ''DerivedClass'' \<and>
   fset (getter_only_heap 0) = None \<and>
   get_mro test_classes (Instance 0 ''DerivedClass'') \<noteq> [] \<and>
   oproperty_set (Suc 0) getter_only_heap test_classes 0 (Instance 0 ''DerivedClass'')
     (IntV 555) (base_init (Instance 0 ''DerivedClass'') no_attributes) =
     (Inr NoneV,
      (base_init (Instance 0 ''DerivedClass'') no_attributes)
        (Instance 0 ''DerivedClass'' :=
           (base_init (Instance 0 ''DerivedClass'') no_attributes (Instance 0 ''DerivedClass''))
             (''val'' \<mapsto> IntV 555))) \<and>
   class_type (naming_heap 0) = Some ''DerivedClass'' \<and>
   fset (naming_heap 0) = None \<and>
   get_mro naming_classes (Instance 0 ''DerivedClass'') \<noteq> [] \<and>
   oproperty_set (Suc 0) naming_heap naming_classes 0 (Instance 0 ''DerivedClass'')
     (StrV ''moo'') no_attributes = (Inl AttributeError, no_attributes)"
proof -
  let ?d = "Instance 0 ''DerivedClass''"
  let ?s = "base_init ?d no_attributes"
  have b1: "class_type (getter_only_heap 0) = Some ''DerivedClass''"
    by (simp add: getter_only_heap_0)
  have f1: "fset (getter_only_heap 0) = None"
    by (simp add: getter_only_heap_0)
  have m1: "get_mro test_classes ?d \<noteq> []"
    by (simp add: test_mro_derived)
  have n1: "next_implementation test_classes (get_mro test_classes ?d) ''DerivedClass''
              (prop_name (getter_only_heap 0)) =
            Some (Obj (py_property (Some base_prop_fget) (Some base_prop_fset)
                         (Some base_prop_fdel)))"
    by (simp add: getter_only_heap_0 test_mro_derived test_next_derived)
  from set_without_handler_delegates
         [where h = getter_only_heap and self = 0 and val = "IntV 555" and s = ?s
            and depth = 0, OF b1 f1 m1] n1
  have "oproperty_set (Suc 0) getter_only_heap test_classes 0 ?d (IntV 555) ?s =
          (case base_prop_fset ?d (IntV 555) ?s of
             (Inl e, s') \<Rightarrow> (Inl e, s')
           | (Inr r, s') \<Rightarrow> (Inr NoneV, s'))"
    by blast
  then have r1: "oproperty_set (Suc 0) getter_only_heap test_classes 0 ?d (IntV 555) ?s =
                   (Inr NoneV, ?s(?d := (?s ?d)(''val'' \<mapsto> IntV 555)))"
    by (simp add: base_prop_fset_def)
  have b2: "class_type (naming_heap 0) = Some ''DerivedClass''"
    by (simp add: naming_heap_0)
  have f2: "fset (naming_heap 0) = None"
    by (simp add: naming_heap_0)
  have m2: "get_mro naming_classes ?d \<noteq> []"
    by (simp add: naming_mro_derived)
  have n2: "next_implementation naming_classes (get_mro naming_classes ?d)
             ''DerivedClass'' (prop_name (naming_heap 0)) =
           Some (Obj (py_property (Some prop1_fget) None None))"
    by (simp add: naming_heap_0 naming_mro_derived naming_next_prop1)
  from set_without_handler_delegates
         [where h = naming_heap and self = 0 and val = "StrV ''moo''" and s = no_attributes
            and depth = 0, OF b2 f2 m2] n2
  have r2: "oproperty_set (Suc 0) naming_heap naming_classes 0 ?d (StrV ''moo'')
              no_attributes = (Inl AttributeError, no_attributes)"
    by blast
  from b1 f1 m1 r1 b2 f2 m2 r2 show ?thesis by blast
qed

section \<open>The two-level chain of \<open>TestBasicImplementation\<close>\<close>

text \<open>
  C7. \<open>BaseClass\<close> defines get, set and delete of \<open>prop\<close> on the stored \<open>val\<close>;
  \<open>DerivedClass\<close> overrides get with \<open>orig() + 1\<close> and set with
  \<open>orig(val - 10)\<close>. The class body and the decorator run without error from any
  store, and then, on a derived instance whose stored value is the integer \<open>b\<close>, reading
  \<open>prop\<close> gives \<open>b + 1\<close> and leaves the state alone, and writing the integer \<open>v\<close>
  stores \<open>v - 10\<close> in \<open>val\<close> of that instance and changes nothing else.
\<close>

theorem two_level_chain:
  assumes "s (Instance i ''DerivedClass'') ''val'' = Some (IntV b)"
  shows "case test_setup h0 of
           Inl e \<Rightarrow> False
         | Inr h \<Rightarrow>
             oproperty_get (Suc depth) h test_classes 0 (Some (Instance i ''DerivedClass'')) s =
               (Inr (IntV (b + 1)), s) \<and>
             oproperty_set (Suc depth) h test_classes 0 (Instance i ''DerivedClass'') (IntV v) s =
               (Inr NoneV,
                s(Instance i ''DerivedClass'' :=
                    (s (Instance i ''DerivedClass''))(''val'' \<mapsto> IntV (v - 10))))"
proof -
  let ?h = "h0(0 := \<lparr>fget = Some derived_prop_get, fset = Some derived_prop_set, fdel = None,
                    doc = None, prop_name = ''prop'', class_type = Some ''DerivedClass''\<rparr>)"
  have b: "class_type (?h 0) = Some ''DerivedClass''" by simp
  have m: "get_mro test_classes (Instance i ''DerivedClass'') \<noteq> []"
    by (simp add: test_mro_derived)
  note r = get_super_attribute_bound [where h = ?h and self = 0, OF b m]
  have g0: "oproperty_get (Suc depth) ?h test_classes 0 (Some (Instance i ''DerivedClass'')) s =
              func_call derived_prop_get (Instance i ''DerivedClass'')
                (call_get (oproperty_get depth ?h test_classes)
                   (Some (Obj (py_property (Some base_prop_fget) (Some base_prop_fset)
                                 (Some base_prop_fdel))))
                   (Instance i ''DerivedClass'')) s"
    by (simp add: r test_mro_derived test_next_derived)
  have g: "oproperty_get (Suc depth) ?h test_classes 0 (Some (Instance i ''DerivedClass'')) s =
               (Inr (IntV (b + 1)), s)"
    unfolding g0 using assms by (simp add: base_property_get derived_prop_get_def)
  have w0: "oproperty_set (Suc depth) ?h test_classes 0 (Instance i ''DerivedClass'') (IntV v) s =
              func_call derived_prop_set (Instance i ''DerivedClass'') (IntV v)
                (call_set (oproperty_set depth ?h test_classes)
                   (Some (Obj (py_property (Some base_prop_fget) (Some base_prop_fset)
                                 (Some base_prop_fdel))))
                   (Instance i ''DerivedClass'')) s"
    by (simp add: r test_mro_derived test_next_derived)
  have w: "oproperty_set (Suc depth) ?h test_classes 0 (Instance i ''DerivedClass'') (IntV v) s =
               (Inr NoneV,
                s(Instance i ''DerivedClass'' :=
                    (s (Instance i ''DerivedClass''))(''val'' \<mapsto> IntV (v - 10))))"
    unfolding w0 by (simp add: base_property_set derived_prop_set_def)
  show ?thesis
    unfolding test_setup_result using g w by simp
qed

text \<open>
  The theorem at the values of the tests: after \<open>BaseClass.__init__\<close> the stored value
  is 123, reading gives 124, and writing 555 stores 545.
\<close>

theorem two_level_chain_witness:
  "base_init (Instance 0 ''DerivedClass'') no_attributes (Instance 0 ''DerivedClass'') ''val'' =
     Some (IntV 123) \<and>
   test_setup no_descriptors = Inr test_heap \<and>
   oproperty_get (Suc 0) test_heap test_classes 0 (Some (Instance 0 ''DerivedClass''))
     (base_init (Instance 0 ''DerivedClass'') no_attributes) =
     (Inr (IntV 124), base_init (Instance 0 ''DerivedClass'') no_attributes) \<and>
   snd (oproperty_set (Suc 0) test_heap test_classes 0 (Instance 0 ''DerivedClass'') (IntV 555)
          (base_init (Instance 0 ''DerivedClass'') no_attributes))
     (Instance 0 ''DerivedClass'') ''val'' = Some (IntV 545)"
proof -
  let ?d = "Instance 0 ''DerivedClass''"
  let ?s = "base_init ?d no_attributes"
  have a: "?s ?d ''val'' = Some (IntV 123)"
    by (simp add: base_init_val)
  have t: "test_setup no_descriptors = Inr test_heap"
    by (simp add: test_heap_def test_setup_result)
  from two_level_chain [where s = ?s and i = 0 and b = 123 and ?h0.0 = no_descriptors
      and depth = 0 and v = 555, OF a]
  have c: "oproperty_get (Suc 0) test_heap test_classes 0 (Some ?d) ?s = (Inr (IntV (123 + 1)), ?s) \<and>
           oproperty_set (Suc 0) test_heap test_classes 0 ?d (IntV 555) ?s =
             (Inr NoneV, ?s(?d := (?s ?d)(''val'' \<mapsto> IntV (555 - 10))))"
    unfolding t by simp
  from c have g: "oproperty_get (Suc 0) test_heap test_classes 0 (Some ?d) ?s = (Inr (IntV 124), ?s)"
    by simp
  from c have w: "snd (oproperty_set (Suc 0) test_heap test_classes 0 ?d (IntV 555) ?s) ?d ''val'' =
                    Some (IntV 545)"
    by simp
  from a t g w show ?thesis by blast
qed

section \<open>Attaching handlers\<close>

text \<open>
  C8. \<open>getter\<close>, \<open>setter\<close> and \<open>deleter\<close> return the reference they were called on;
  in the store, the object behind it has the given handler in the matching field and the
  other two handlers, the documentation, the target name and the bound class as before;
  every other descriptor object is unchanged.
\<close>

theorem attach_returns_self:
  "snd (getter h self fg) = self \<and>
   fget (fst (getter h self fg) self) = Some fg \<and>
   fset (fst (getter h self fg) self) = fset (h self) \<and>
   fdel (fst (getter h self fg) self) = fdel (h self) \<and>
   doc (fst (getter h self fg) self) = doc (h self) \<and>
   prop_name (fst (getter h self fg) self) = prop_name (h self) \<and>
   class_type (fst (getter h self fg) self) = class_type (h self) \<and>
   (\<forall>r. r \<noteq> self \<longrightarrow> fst (getter h self fg) r = h r) \<and>
   snd (setter h self fs) = self \<and>
   fset (fst (setter h self fs) self) = Some fs \<and>
   fget (fst (setter h self fs) self) = fget (h self) \<and>
   fdel (fst (setter h self fs) self) = fdel (h self) \<and>
   doc (fst (setter h self fs) self) = doc (h self) \<and>
   prop_name (fst (setter h self fs) self) = prop_name (h self) \<and>
   class_type (fst (setter h self fs) self) = class_type (h self) \<and>
   (\<forall>r. r \<noteq> self \<longrightarrow> fst (setter h self fs) r = h r) \<and>
   snd (deleter h self fd) = self \<and>
   fdel (fst (deleter h self fd) self) = Some fd \<and>
   fget (fst (deleter h self fd) self) = fget (h self) \<and>
   fset (fst (deleter h self fd) self) = fset (h self) \<and>
   doc (fst (deleter h self fd) self) = doc (h self) \<and>
   prop_name (fst (deleter h self fd) self) = prop_name (h self) \<and>
   class_type (fst (deleter h self fd) self) = class_type (h self) \<and>
   (\<forall>r. r \<noteq> self \<longrightarrow> fst (deleter h self fd) r = h r)"
  by (simp add: getter_def setter_def deleter_def)

text \<open>
  The theorem at the bound descriptor of the tests: a new setter on object 0 keeps its
  getter, name and class, and object 1 is untouched.
\<close>

theorem attach_returns_self_witness:
  "snd (setter test_heap 0 derived_prop_set) = 0 \<and>
   fset (fst (setter test_heap 0 derived_prop_set) 0) = Some derived_prop_set \<and>
   fget (fst (setter test_heap 0 derived_prop_set) 0) = Some derived_prop_get \<and>
   prop_name (fst (setter test_heap 0 derived_prop_set) 0) = ''prop'' \<and>
   class_type (fst (setter test_heap 0 derived_prop_set) 0) = Some ''DerivedClass'' \<and>
   (1::nat) \<noteq> 0 \<and>
   fst (setter test_heap 0 derived_prop_set) 1 = test_heap 1"
proof -
  note t = attach_returns_self [of test_heap 0 derived_prop_get derived_prop_set prop1_handler]
  have n: "(1::nat) \<noteq> 0" by simp
  from t have a: "snd (setter test_heap 0 derived_prop_set) = 0" by blast
  from t have b: "fset (fst (setter test_heap 0 derived_prop_set) 0) = Some derived_prop_set"
    by blast
  from t have "fget (fst (setter test_heap 0 derived_prop_set) 0) = fget (test_heap 0)"
    by blast
  then have c: "fget (fst (setter test_heap 0 derived_prop_set) 0) = Some derived_prop_get"
    by (simp add: test_heap_0)
  from t have "prop_name (fst (setter test_heap 0 derived_prop_set) 0) = prop_name (test_heap 0)"
    by blast
  then have d: "prop_name (fst (setter test_heap 0 derived_prop_set) 0) = ''prop''"
    by (simp add: test_heap_0)
  from t have "class_type (fst (setter test_heap 0 derived_prop_set) 0) = class_type (test_heap 0)"
    by blast
  then have e: "class_type (fst (setter test_heap 0 derived_prop_set) 0) = Some ''DerivedClass''"
    by (simp add: test_heap_0)
  from t have "\<forall>r. r \<noteq> 0 \<longrightarrow> fst (setter test_heap 0 derived_prop_set) r = test_heap r"
    by blast
  with n have f: "fst (setter test_heap 0 derived_prop_set) 1 = test_heap 1"
    by blast
  from a b c d e n f show ?thesis by blast
qed

section \<open>Objects unrelated to the bound class\<close>

text \<open>
  C10. For a bound descriptor and an object whose (non-empty) linearization does not hold
  the bound class, the first loop ends on the last position, the second loop has no
  position to visit, and \<open>_get_super_attribute\<close> returns nothing without raising. The
  access then fails only where the chain accessor is called: at once with AttributeError
  when there is no handler, and inside the handler, if and when it calls \<open>orig\<close>,
  otherwise.
\<close>

theorem unrelated_object_resolves_to_nothing:
  assumes "class_type (h self) = Some k" and "k \<notin> set (get_mro ct obj)"
    and "get_mro ct obj \<noteq> []"
  shows "get_super_attribute h ct self obj name = Inr None \<and>
         find_class_loop (get_mro ct obj) k [0..<length (get_mro ct obj)] None =
           Some (length (get_mro ct obj) - 1) \<and>
         [Suc (length (get_mro ct obj) - 1)..<length (get_mro ct obj)] = [] \<and>
         oproperty_get (Suc depth) h ct self (Some obj) s =
           (case fget (h self) of
              Some f \<Rightarrow> func_call f obj (\<lambda>s'. (Inl AttributeError, s')) s
            | None \<Rightarrow> (Inl AttributeError, s)) \<and>
         oproperty_set (Suc depth) h ct self obj val s =
           (case fset (h self) of
              Some f \<Rightarrow> func_call f obj val (\<lambda>v s'. (Inl AttributeError, s')) s
            | None \<Rightarrow> (Inl AttributeError, s)) \<and>
         oproperty_delete (Suc depth) h ct self obj s =
           (case fdel (h self) of
              Some f \<Rightarrow> func_call f obj (\<lambda>s'. (Inl AttributeError, s')) s
            | None \<Rightarrow> (Inl AttributeError, s))"
proof -
  have n: "next_implementation ct (get_mro ct obj) k nm = None" for nm
    using assms(2) by (simp add: next_implementation_def ancestors_after_absent first_defining_def)
  note r = get_super_attribute_bound [where h = h and self = self, OF assms(1) assms(3)]
  have cg: "call_get oget None obj = (\<lambda>s'. (Inl AttributeError, s'))"
    for oget :: "ref \<Rightarrow> pyobj option \<Rightarrow> 'a comp"
    by (rule ext) (simp add: call_get_def)
  have cs: "call_set oset None obj = (\<lambda>v s'. (Inl AttributeError, s'))"
    for oset :: "ref \<Rightarrow> pyobj \<Rightarrow> pyval \<Rightarrow> 'a comp"
    by (rule ext, rule ext) (simp add: call_set_def)
  have cd: "call_delete odel None obj = (\<lambda>s'. (Inl AttributeError, s'))"
    for odel :: "ref \<Rightarrow> pyobj \<Rightarrow> 'a comp"
    by (rule ext) (simp add: call_delete_def)
  have f: "find_class_loop (get_mro ct obj) k [0..<length (get_mro ct obj)] None =
           Some (length (get_mro ct obj) - 1)"
    using assms(2,3) find_class_loop_upt [of 0 "get_mro ct obj" k None] by simp
  show ?thesis
    using assms(3) by (simp add: r n cg cs cd f split: option.split)
qed

text \<open>
  The theorem at the descriptor of \<open>DerivedClass\<close> applied to an instance of
  \<open>BaseClass\<close>, whose linearization is \<open>BaseClass\<close>, \<open>object\<close>.
\<close>

theorem unrelated_object_resolves_to_nothing_witness:
  "class_type (test_heap 0) = Some ''DerivedClass'' \<and>
   ''DerivedClass'' \<notin> set (get_mro test_classes (Instance 1 ''BaseClass'')) \<and>
   get_mro test_classes (Instance 1 ''BaseClass'') \<noteq> [] \<and>
   get_super_attribute test_heap test_classes 0 (Instance 1 ''BaseClass'') ''prop'' = Inr None"
proof -
  have b: "class_type (test_heap 0) = Some ''DerivedClass''"
    by (simp add: test_heap_0)
  have a: "''DerivedClass'' \<notin> set (get_mro test_classes (Instance 1 ''BaseClass''))"
    by (simp add: test_mro_base)
  have m: "get_mro test_classes (Instance 1 ''BaseClass'') \<noteq> []"
    by (simp add: test_mro_base)
  from unrelated_object_resolves_to_nothing [where h = test_heap and self = 0, OF b a m]
  have r: "get_super_attribute test_heap test_classes 0 (Instance 1 ''BaseClass'') ''prop'' =
             Inr None"
    by blast
  from b a m r show ?thesis by blast
qed

end
